theory Spec2Isabelle
  imports Main "HOL-Library.Word"
begin

section \<open>Python values, dictionaries and exceptions\<close>

text \<open>
  The module \<^verbatim>\<open>backend/survey3d.py\<close> moves JSON-like Python values between objects
  and dictionaries. Python does not enforce the annotations of a dataclass, and
  \<^verbatim>\<open>fromDict\<close> stores whatever value the dictionary holds under a key, so the values
  that the code only stores and serialises are dynamic: a \<open>pyval\<close>. A \<^verbatim>\<open>float\<close> is
  carried as its 64-bit pattern; the module never computes with one.

  A \<^verbatim>\<open>dict\<close> is an association list in insertion order, read with \<open>map_of\<close>;
  the dictionaries built by the module have pairwise distinct keys.
\<close>

type_synonym float64 = "64 word"

datatype pyval =
    PNone
  | PBool bool
  | PInt int
  | PFloat float64
  | PStr string
  | PList "pyval list"
  | PDict "(string \<times> pyval) list"

type_synonym pydict = "(string \<times> pyval) list"

text \<open>
  The exceptions the interpreter raises in this module: \<open>KeyError k\<close> from
  \<^verbatim>\<open>dictionary[k]\<close> on an absent key, \<open>TypeError\<close> from a call with missing
  positional arguments or from iterating a value that is not iterable,
  \<open>AttributeError\<close> from an attribute access on \<^verbatim>\<open>None\<close>, and \<open>OSError\<close> (with
  its subclasses \<^verbatim>\<open>FileNotFoundError\<close> and \<^verbatim>\<open>PermissionError\<close>) from an \<^verbatim>\<open>open\<close>
  that fails.
\<close>

datatype pyerror = KeyError string | TypeError | AttributeError | OSError

datatype 'a outcome = Return 'a | Raise pyerror

text \<open>\<^verbatim>\<open>dictionary[key]\<close>\<close>

definition getitem :: "pydict \<Rightarrow> string \<Rightarrow> pyval outcome" where
  "getitem dictionary key =
     (case map_of dictionary key of
        None \<Rightarrow> Raise (KeyError key)
      | Some v \<Rightarrow> Return v)"

definition keys :: "pydict \<Rightarrow> string set" where
  "keys dictionary = fst ` set dictionary"

text \<open>
  What a \<^verbatim>\<open>for\<close> loop iterates over: the elements of a list, the keys of a dict, the
  characters of a str; every other value here is not iterable.
\<close>

fun py_iter :: "pyval \<Rightarrow> pyval list outcome" where
  "py_iter (PList xs) = Return xs"
| "py_iter (PDict kvs) = Return (map (\<lambda>kv. PStr (fst kv)) kvs)"
| "py_iter (PStr s) = Return (map (\<lambda>c. PStr [c]) s)"
| "py_iter PNone = Raise TypeError"
| "py_iter (PBool b) = Raise TypeError"
| "py_iter (PInt i) = Raise TypeError"
| "py_iter (PFloat f) = Raise TypeError"

section \<open>Quality\<close>

record Quality =
  intensity :: pyval
  naturalness :: pyval
  pain :: pyval
  depth :: pyval
  type :: pyval

definition Quality_toDict :: "Quality \<Rightarrow> pydict" where
  "Quality_toDict self =
     [(''intensity'', intensity self),
      (''naturalness'', naturalness self),
      (''pain'', pain self),
      (''depth'', depth self),
      (''type'', type self)]"

text \<open>
  \<^verbatim>\<open>Quality.fromDict\<close> assigns the five attributes in order and mutates \<^verbatim>\<open>self\<close> in
  place, so an absent key raises after the earlier attributes have been overwritten.
  The model returns the outcome (\<open>Return ()\<close> is Python's \<^verbatim>\<open>None\<close>) and the object
  as the call leaves it.
\<close>

definition Quality_fromDict :: "Quality \<Rightarrow> pydict \<Rightarrow> unit outcome \<times> Quality" where
  "Quality_fromDict self dictionary =
     (case getitem dictionary ''intensity'' of
        Raise e \<Rightarrow> (Raise e, self)
      | Return v1 \<Rightarrow>
     (case getitem dictionary ''naturalness'' of
        Raise e \<Rightarrow> (Raise e, self\<lparr>intensity := v1\<rparr>)
      | Return v2 \<Rightarrow>
     (case getitem dictionary ''pain'' of
        Raise e \<Rightarrow> (Raise e, self\<lparr>intensity := v1, naturalness := v2\<rparr>)
      | Return v3 \<Rightarrow>
     (case getitem dictionary ''depth'' of
        Raise e \<Rightarrow> (Raise e, self\<lparr>intensity := v1, naturalness := v2, pain := v3\<rparr>)
      | Return v4 \<Rightarrow>
     (case getitem dictionary ''type'' of
        Raise e \<Rightarrow>
          (Raise e, self\<lparr>intensity := v1, naturalness := v2, pain := v3, depth := v4\<rparr>)
      | Return v5 \<Rightarrow>
          (Return (),
           self\<lparr>intensity := v1, naturalness := v2, pain := v3, depth := v4,
                type := v5\<rparr>))))))"

text \<open>
  \<^verbatim>\<open>Quality()\<close>: the dataclass has five fields without defaults, so the generated
  \<^verbatim>\<open>__init__\<close> called with no argument never returns an object; this is the exception
  it raises.
\<close>

definition Quality_init_noargs :: pyerror where
  "Quality_init_noargs = TypeError"

section \<open>ProjectedField\<close>

text \<open>
  \<open>qualities\<close> holds \<^verbatim>\<open>Quality\<close> objects, on which \<^verbatim>\<open>toDict\<close> calls a method; the
  other attributes are only stored and serialised.
\<close>

record ProjectedField =
  model :: pyval
  name :: pyval
  vertices :: pyval
  hotSpot :: pyval
  qualities :: "Quality list"

definition ProjectedField_toDict :: "ProjectedField \<Rightarrow> pydict" where
  "ProjectedField_toDict self =
     (let qualitiesDict = map (\<lambda>quality. PDict (Quality_toDict quality)) (qualities self)
      in [(''model'', model self),
          (''name'', name self),
          (''verices'', vertices self),
          (''hotSpot'', hotSpot self),
          (''qualities'', PList qualitiesDict)])"

text \<open>
  The loop of \<^verbatim>\<open>ProjectedField.fromDict\<close>. Its body starts with \<^verbatim>\<open>Quality()\<close>, which
  raises, so the first element iterated ends the call; the rest of the body
  (\<^verbatim>\<open>.fromDict(quality)\<close>, \<^verbatim>\<open>append\<close>) is never reached.
\<close>

fun ProjectedField_fromDict_loop ::
  "pyval list \<Rightarrow> ProjectedField \<Rightarrow> unit outcome \<times> ProjectedField" where
  "ProjectedField_fromDict_loop [] self = (Return (), self)"
| "ProjectedField_fromDict_loop (quality # rest) self = (Raise Quality_init_noargs, self)"

definition ProjectedField_fromDict ::
  "ProjectedField \<Rightarrow> pydict \<Rightarrow> unit outcome \<times> ProjectedField" where
  "ProjectedField_fromDict self dictionary =
     (case getitem dictionary ''model'' of
        Raise e \<Rightarrow> (Raise e, self)
      | Return v1 \<Rightarrow>
     (case getitem dictionary ''name'' of
        Raise e \<Rightarrow> (Raise e, self\<lparr>model := v1\<rparr>)
      | Return v2 \<Rightarrow>
     (case getitem dictionary ''vertices'' of
        Raise e \<Rightarrow> (Raise e, self\<lparr>model := v1, name := v2\<rparr>)
      | Return v3 \<Rightarrow>
     (case getitem dictionary ''hotSpot'' of
        Raise e \<Rightarrow> (Raise e, self\<lparr>model := v1, name := v2, vertices := v3\<rparr>)
      | Return v4 \<Rightarrow>
     (let self' = self\<lparr>model := v1, name := v2, vertices := v3, hotSpot := v4,
                       qualities := []\<rparr>
      in case getitem dictionary ''qualities'' of
           Raise e \<Rightarrow> (Raise e, self')
         | Return qs \<Rightarrow>
             (case py_iter qs of
                Raise e \<Rightarrow> (Raise e, self')
              | Return elems \<Rightarrow> ProjectedField_fromDict_loop elems self'))))))"

text \<open>
  \<^verbatim>\<open>ProjectedField.fromDict(field)\<close> in \<^verbatim>\<open>Survey.fromDict\<close> calls the function on the
  class with one positional argument: it binds \<^verbatim>\<open>self\<close>, and the call raises for the
  missing \<^verbatim>\<open>dictionary\<close> before the body runs.
\<close>

definition ProjectedField_fromDict_unbound :: pyerror where
  "ProjectedField_fromDict_unbound = TypeError"

section \<open>The clock, the file system and the console\<close>

text \<open>
  \<^verbatim>\<open>datetime.now()\<close> is a reading of the system clock; each operation that reads it
  takes the reading as its argument \<open>now\<close>. \<^verbatim>\<open>strftime\<close> writes each field as
  zero-padded decimal digits.
\<close>

record datetime =
  year :: nat
  month :: nat
  day :: nat
  hour :: nat
  minute :: nat
  second :: nat

definition digit_char :: "nat \<Rightarrow> char" where
  "digit_char n = ''0123456789'' ! (n mod 10)"

definition pad2 :: "nat \<Rightarrow> string" where
  "pad2 n = [digit_char (n div 10), digit_char n]"

definition pad4 :: "nat \<Rightarrow> string" where
  "pad4 n = [digit_char (n div 1000), digit_char (n div 100), digit_char (n div 10),
             digit_char n]"

text \<open>\<^verbatim>\<open>now.strftime("%Y-%m-%d")\<close> and \<^verbatim>\<open>now.strftime("%H-%M-%S")\<close>\<close>

definition strftime_date :: "datetime \<Rightarrow> string" where
  "strftime_date now = pad4 (year now) @ ''-'' @ pad2 (month now) @ ''-'' @ pad2 (day now)"

definition strftime_time :: "datetime \<Rightarrow> string" where
  "strftime_time now =
     pad2 (hour now) @ ''-'' @ pad2 (minute now) @ ''-'' @ pad2 (second now)"

text \<open>
  The text that \<^verbatim>\<open>json.dump(obj, file, indent = n)\<close> writes is kept symbolic: the
  object dumped and the indent. The file system is a store from path to content, with
  the paths at which \<^verbatim>\<open>open(path, 'w')\<close> succeeds (the directory exists and is
  writable, the path is not a directory): \<open>can_open\<close>. \<open>stdout\<close> collects the lines
  printed.
\<close>

datatype file_content = JsonDump pyval nat

record world =
  files :: "string \<rightharpoonup> file_content"
  can_open :: "string \<Rightarrow> bool"
  stdout :: "string list"

definition print :: "string \<Rightarrow> world \<Rightarrow> world" where
  "print line w = w\<lparr>stdout := stdout w @ [line]\<rparr>"

text \<open>
  \<^verbatim>\<open>with open(path, 'w') as file: json.dump(obj, file, indent = n)\<close>: where the file
  cannot be opened, \<^verbatim>\<open>open\<close> raises and nothing is written; where it can, the file
  holds the dump afterwards, whatever it held before.
\<close>

definition open_write :: "string \<Rightarrow> file_content \<Rightarrow> world \<Rightarrow> unit outcome \<times> world" where
  "open_write path content w =
     (if can_open w path then (Return (), w\<lparr>files := (files w)(path \<mapsto> content)\<rparr>)
      else (Raise OSError, w))"

text \<open>\<^verbatim>\<open>os.path.join(a, b)\<close> of \<^verbatim>\<open>posixpath\<close>: an absolute \<open>b\<close> replaces \<open>a\<close>.\<close>

definition os_path_join :: "string \<Rightarrow> string \<Rightarrow> string" where
  "os_path_join a b =
     (if take 1 b = ''/'' then b
      else if a = [] \<or> last a = CHR ''/'' then a @ b
      else a @ ''/'' @ b)"

section \<open>Survey\<close>

text \<open>
  The file name is formatted from \<open>participant\<close>, \<open>date\<close> and \<open>startTime\<close>, which
  the constructor call in \<^verbatim>\<open>newSurvey\<close> and \<^verbatim>\<open>strftime\<close> make \<^verbatim>\<open>str\<close>: the four
  \<^verbatim>\<open>str\<close> attributes have their declared type. \<open>config\<close> is the participant's entry of
  the configuration, any JSON value.
\<close>

record Survey =
  participant :: string
  config :: pyval
  date :: string
  startTime :: string
  endTime :: string
  projectedFields :: "ProjectedField list"

text \<open>\<^verbatim>\<open>Survey(participant, config)\<close>, with the defaults of the other fields\<close>

definition Survey_init :: "string \<Rightarrow> pyval \<Rightarrow> Survey" where
  "Survey_init p c =
     \<lparr>participant = p, config = c, date = [], startTime = [], endTime = [],
      projectedFields = []\<rparr>"

definition startDateTimeNow :: "datetime \<Rightarrow> Survey \<Rightarrow> Survey" where
  "startDateTimeNow now self =
     self\<lparr>date := strftime_date now, startTime := strftime_time now\<rparr>"

definition endTimeNow :: "datetime \<Rightarrow> Survey \<Rightarrow> Survey" where
  "endTimeNow now self = self\<lparr>endTime := strftime_time now\<rparr>"

definition Survey_toDict :: "Survey \<Rightarrow> pydict" where
  "Survey_toDict self =
     (let projectedFieldsDict =
            map (\<lambda>field. PDict (ProjectedField_toDict field)) (projectedFields self)
      in [(''participant'', PStr (participant self)),
          (''config'', config self),
          (''date'', PStr (date self)),
          (''startTime'', PStr (startTime self)),
          (''endTime'', PStr (endTime self)),
          (''projectedFields'', PList projectedFieldsDict)])"

text \<open>
  \<^verbatim>\<open>Survey.saveSurvey\<close> returns its boolean, or raises what \<^verbatim>\<open>open\<close> raises (the
  method has no handler, and the line announcing the file is printed before the
  \<^verbatim>\<open>open\<close>). Beside the outcome the model returns the object as the call leaves it
  and the world after the call.
\<close>

definition Survey_saveSurvey ::
  "Survey \<Rightarrow> string \<Rightarrow> world \<Rightarrow> bool outcome \<times> Survey \<times> world" where
  "Survey_saveSurvey self path w =
     (if projectedFields self \<noteq> [] then
        (let filename =
               participant self @ ''_'' @ date self @ ''_'' @ startTime self @ ''.json'';
             w1 = print (''Saving survey to '' @ filename @ ''...'') w
         in case open_write (os_path_join path filename)
                   (JsonDump (PDict (Survey_toDict self)) 4) w1 of
              (Raise e, w2) \<Rightarrow> (Raise e, self, w2)
            | (Return u, w2) \<Rightarrow> (Return True, self, w2))
      else
        (Return False, self,
         print ''Survey cannot be saved without any projected fields!'' w))"

text \<open>
  \<^verbatim>\<open>Survey.fromDict\<close> stores the values found under the six keys. The typed record holds
  a \<^verbatim>\<open>str\<close> under the four \<^verbatim>\<open>str\<close> attributes only: on a dictionary with another
  value there, which Python would store as it is, the model gives no run (\<open>None\<close>).
\<close>

fun as_str :: "pyval \<Rightarrow> string option" where
  "as_str (PStr s) = Some s"
| "as_str PNone = None"
| "as_str (PBool b) = None"
| "as_str (PInt i) = None"
| "as_str (PFloat f) = None"
| "as_str (PList xs) = None"
| "as_str (PDict kvs) = None"

fun Survey_fromDict_loop :: "pyval list \<Rightarrow> Survey \<Rightarrow> unit outcome \<times> Survey" where
  "Survey_fromDict_loop [] self = (Return (), self)"
| "Survey_fromDict_loop (field # rest) self = (Raise ProjectedField_fromDict_unbound, self)"

definition Survey_fromDict :: "Survey \<Rightarrow> pydict \<Rightarrow> (unit outcome \<times> Survey) option" where
  "Survey_fromDict self dictionary =
     (case getitem dictionary ''participant'' of
        Raise e \<Rightarrow> Some (Raise e, self)
      | Return v1 \<Rightarrow>
     (case as_str v1 of None \<Rightarrow> None | Some s1 \<Rightarrow>
     (case getitem dictionary ''config'' of
        Raise e \<Rightarrow> Some (Raise e, self\<lparr>participant := s1\<rparr>)
      | Return v2 \<Rightarrow>
     (case getitem dictionary ''date'' of
        Raise e \<Rightarrow> Some (Raise e, self\<lparr>participant := s1, config := v2\<rparr>)
      | Return v3 \<Rightarrow>
     (case as_str v3 of None \<Rightarrow> None | Some s3 \<Rightarrow>
     (case getitem dictionary ''startTime'' of
        Raise e \<Rightarrow> Some (Raise e, self\<lparr>participant := s1, config := v2, date := s3\<rparr>)
      | Return v4 \<Rightarrow>
     (case as_str v4 of None \<Rightarrow> None | Some s4 \<Rightarrow>
     (case getitem dictionary ''endTime'' of
        Raise e \<Rightarrow>
          Some (Raise e, self\<lparr>participant := s1, config := v2, date := s3,
                              startTime := s4\<rparr>)
      | Return v5 \<Rightarrow>
     (case as_str v5 of None \<Rightarrow> None | Some s5 \<Rightarrow>
     (let self' = self\<lparr>participant := s1, config := v2, date := s3,
                       startTime := s4, endTime := s5, projectedFields := []\<rparr>
      in case getitem dictionary ''projectedFields'' of
           Raise e \<Rightarrow> Some (Raise e, self')
         | Return fs \<Rightarrow>
             (case py_iter fs of
                Raise e \<Rightarrow> Some (Raise e, self')
              | Return elems \<Rightarrow> Some (Survey_fromDict_loop elems self'))))))))))))"

section \<open>SurveyManager\<close>

text \<open>
  The manager after \<^verbatim>\<open>__init__\<close>: \<open>config\<close> is the JSON object loaded from
  \<^verbatim>\<open>participant_config.json\<close>, \<open>survey\<close> the active survey or \<^verbatim>\<open>None\<close>. A
  \<^verbatim>\<open>Survey\<close> object is always true in \<^verbatim>\<open>if self.survey\<close> (the dataclass defines neither
  \<^verbatim>\<open>__bool__\<close> nor \<^verbatim>\<open>__len__\<close>).
\<close>

record SurveyManager =
  survey :: "Survey option"
  config :: pydict
  data_path :: string

text \<open>
  \<^verbatim>\<open>newSurvey\<close> returns \<^verbatim>\<open>True\<close>, \<^verbatim>\<open>False\<close> or, where the body ends without a
  \<^verbatim>\<open>return\<close>, \<^verbatim>\<open>None\<close>.
\<close>

definition SurveyManager_newSurvey ::
  "datetime \<Rightarrow> SurveyManager \<Rightarrow> string \<Rightarrow> world \<Rightarrow> pyval \<times> SurveyManager \<times> world" where
  "SurveyManager_newSurvey now self p w =
     (case survey self of
        Some s \<Rightarrow>
          (PBool False, self,
           print ''Cannot begin new survey; there is already an ongoing survey.'' w)
      | None \<Rightarrow>
          (case map_of (config self) p of
             Some c \<Rightarrow>
               (PBool True, self\<lparr>survey := Some (startDateTimeNow now (Survey_init p c))\<rparr>, w)
           | None \<Rightarrow>
               (PNone, self,
                print (''Cannot begin new survey; given participant is not in '' @
                       ''participant config.'') w)))"

text \<open>
  \<^verbatim>\<open>SurveyManager.saveSurvey\<close>: \<^verbatim>\<open>self.survey.endTimeNow()\<close> on \<^verbatim>\<open>None\<close> raises
  \<^verbatim>\<open>AttributeError\<close>; otherwise the survey object is stamped in place and then saved.
  An exception of the save passes through the manager, which keeps the stamped survey.
\<close>

definition SurveyManager_saveSurvey ::
  "datetime \<Rightarrow> SurveyManager \<Rightarrow> world \<Rightarrow> bool outcome \<times> SurveyManager \<times> world" where
  "SurveyManager_saveSurvey now self w =
     (case survey self of
        None \<Rightarrow> (Raise AttributeError, self, w)
      | Some s \<Rightarrow>
          (case Survey_saveSurvey (endTimeNow now s) (data_path self) w of
             (Raise e, s', w') \<Rightarrow> (Raise e, self\<lparr>survey := Some s'\<rparr>, w')
           | (Return ok, s', w') \<Rightarrow>
               if ok then (Return True, self\<lparr>survey := None\<rparr>, w')
               else (Return False, self\<lparr>survey := Some s'\<rparr>, w')))"

section \<open>A session used as the concrete input\<close>

text \<open>
  The configuration \<^verbatim>\<open>{"p1": {"arm": "left"}}\<close>, a quality with intensity 0.8,
  naturalness 0.5 and pain 0.9 (as IEEE-754 doubles), a field on the model
  \<^verbatim>\<open>torso\<close>, a clock reading of 2024-05-17 12:30:45, and a machine without files on
  which the directories \<^verbatim>\<open>/data\<close> and \<^verbatim>\<open>/tmp\<close> exist and are writable.
\<close>

definition example_quality :: Quality where
  "example_quality =
     \<lparr>intensity = PFloat 0x3FE999999999999A, naturalness = PFloat 0x3FE0000000000000,
      pain = PFloat 0x3FECCCCCCCCCCCCD, depth = PStr ''deep'', type = PStr ''sharp''\<rparr>"

definition example_field :: ProjectedField where
  "example_field =
     \<lparr>model = PStr ''torso'', name = PStr ''chest'',
      vertices = PList [PInt 1, PInt 2, PInt 3], hotSpot = PList [PInt 2],
      qualities = [example_quality]\<rparr>"

definition example_config :: pydict where
  "example_config = [(''p1'', PDict [(''arm'', PStr ''left'')])]"

definition example_now :: datetime where
  "example_now = \<lparr>year = 2024, month = 5, day = 17, hour = 12, minute = 30, second = 45\<rparr>"

definition example_world :: world where
  "example_world =
     \<lparr>files = Map.empty,
      can_open = (\<lambda>path. take 6 path = ''/data/'' \<or> take 5 path = ''/tmp/''),
      stdout = []\<rparr>"

definition example_idle :: SurveyManager where
  "example_idle = \<lparr>survey = None, config = example_config, data_path = ''/data''\<rparr>"

text \<open>The survey of \<^verbatim>\<open>p1\<close> started at 09:15:00, before and after a field is appended.\<close>

definition example_empty_survey :: Survey where
  "example_empty_survey =
     \<lparr>participant = ''p1'', config = PDict [(''arm'', PStr ''left'')],
      date = ''2024-05-17'', startTime = ''09-15-00'', endTime = [],
      projectedFields = []\<rparr>"

definition example_survey :: Survey where
  "example_survey = example_empty_survey\<lparr>projectedFields := [example_field]\<rparr>"

definition example_active :: "Survey \<Rightarrow> SurveyManager" where
  "example_active s = example_idle\<lparr>survey := Some s\<rparr>"

section \<open>Dictionary look-up\<close>

lemma map_of_None_keys: "map_of d k = None \<longleftrightarrow> k \<notin> keys d"
  by (simp add: keys_def map_of_eq_None_iff)

lemma getitem_absent: "k \<notin> keys d \<Longrightarrow> getitem d k = Raise (KeyError k)"
  by (simp add: getitem_def map_of_None_keys [symmetric])

lemma getitem_present: "k \<in> keys d \<Longrightarrow> \<exists>v. getitem d k = Return v"
  by (cases "map_of d k") (simp_all add: getitem_def map_of_None_keys)

section \<open>Serialisation and reconstruction\<close>

lemma Quality_roundtrip: "Quality_fromDict self (Quality_toDict q) = (Return (), q)"
  by (simp add: Quality_fromDict_def Quality_toDict_def getitem_def)

lemma ProjectedField_roundtrip:
  "ProjectedField_fromDict self (ProjectedField_toDict pf) =
     (Raise (KeyError ''vertices''), self\<lparr>model := model pf, name := name pf\<rparr>)"
  by (simp add: ProjectedField_fromDict_def ProjectedField_toDict_def getitem_def)

lemma Survey_roundtrip_empty:
  "projectedFields s = [] \<Longrightarrow> Survey_fromDict self (Survey_toDict s) = Some (Return (), s)"
  by (simp add: Survey_fromDict_def Survey_toDict_def getitem_def)

lemma Survey_roundtrip_nonempty:
  "projectedFields s \<noteq> [] \<Longrightarrow>
   Survey_fromDict self (Survey_toDict s) = Some (Raise TypeError, s\<lparr>projectedFields := []\<rparr>)"
  by (cases "projectedFields s")
     (simp_all add: Survey_fromDict_def Survey_toDict_def getitem_def
        ProjectedField_fromDict_unbound_def)

text \<open>
  C1 (round trip of \<^verbatim>\<open>toDict\<close> and \<^verbatim>\<open>fromDict\<close>). The law holds for every Quality. It
  fails for every ProjectedField: \<^verbatim>\<open>toDict\<close> stores the vertices under \<^verbatim>\<open>"verices"\<close>,
  so \<^verbatim>\<open>fromDict\<close> raises \<^verbatim>\<open>KeyError('vertices')\<close> after it has assigned \<open>model\<close> and
  \<open>name\<close>, whatever the field holds. For a Survey it holds exactly when
  \<open>projectedFields\<close> is empty: with one field or more, the loop of
  \<^verbatim>\<open>Survey.fromDict\<close> raises \<^verbatim>\<open>TypeError\<close> at its first element and leaves the
  survey with an empty list.
\<close>

theorem roundtrip_fromDict_toDict:
  "Quality_fromDict q0 (Quality_toDict q) = (Return (), q) \<and>
   ProjectedField_fromDict self (ProjectedField_toDict pf) =
     (Raise (KeyError ''vertices''), self\<lparr>model := model pf, name := name pf\<rparr>) \<and>
   Survey_fromDict s0 (Survey_toDict s) =
     (if projectedFields s = [] then Some (Return (), s)
      else Some (Raise TypeError, s\<lparr>projectedFields := []\<rparr>))"
  by (simp add: Quality_roundtrip ProjectedField_roundtrip Survey_roundtrip_empty
      Survey_roundtrip_nonempty)

theorem roundtrip_fromDict_toDict_witness:
  "fst (ProjectedField_fromDict example_field (ProjectedField_toDict example_field)) =
     Raise (KeyError ''vertices'') \<and>
   Survey_fromDict example_survey (Survey_toDict example_empty_survey) =
     Some (Return (), example_empty_survey) \<and>
   Survey_fromDict example_empty_survey (Survey_toDict example_survey) =
     Some (Raise TypeError, example_empty_survey)"
  using roundtrip_fromDict_toDict [of example_quality example_quality example_field
      example_field example_survey example_empty_survey]
    roundtrip_fromDict_toDict [of example_quality example_quality example_field
      example_field example_empty_survey example_survey]
  by (simp add: example_survey_def example_empty_survey_def)

text \<open>
  C2 (keys of \<^verbatim>\<open>ProjectedField.toDict\<close>). The call never fails and returns five keys,
  but the vertex sequence is stored under \<^verbatim>\<open>"verices"\<close>: the key set is
  \<open>{model, name, verices, hotSpot, qualities}\<close>, and \<^verbatim>\<open>"vertices"\<close> is not a key.
\<close>

theorem ProjectedField_toDict_keys:
  "keys (ProjectedField_toDict pf) =
     {''model'', ''name'', ''verices'', ''hotSpot'', ''qualities''} \<and>
   ''vertices'' \<notin> keys (ProjectedField_toDict pf) \<and>
   getitem (ProjectedField_toDict pf) ''verices'' = Return (vertices pf)"
  by (simp add: keys_def ProjectedField_toDict_def getitem_def)

text \<open>
  C8 (\<^verbatim>\<open>Quality.fromDict\<close>). When the five keys are all present the call returns and
  each of the five attributes holds the value the dictionary has under its key,
  whatever the object held before; when one of them is absent the call raises
  \<^verbatim>\<open>KeyError\<close> for an absent key among the five. So it succeeds exactly when all five
  keys are present.
\<close>

theorem Quality_fromDict_succeeds_iff_keys:
  "({''intensity'', ''naturalness'', ''pain'', ''depth'', ''type''} \<subseteq> keys d \<longrightarrow>
      (\<exists>q. Quality_fromDict self d = (Return (), q) \<and>
           getitem d ''intensity'' = Return (intensity q) \<and>
           getitem d ''naturalness'' = Return (naturalness q) \<and>
           getitem d ''pain'' = Return (pain q) \<and>
           getitem d ''depth'' = Return (depth q) \<and>
           getitem d ''type'' = Return (type q))) \<and>
   (\<not> {''intensity'', ''naturalness'', ''pain'', ''depth'', ''type''} \<subseteq> keys d \<longrightarrow>
      (\<exists>k \<in> {''intensity'', ''naturalness'', ''pain'', ''depth'', ''type''}.
          k \<notin> keys d \<and> fst (Quality_fromDict self d) = Raise (KeyError k)))"
proof (intro conjI impI)
  assume all: "{''intensity'', ''naturalness'', ''pain'', ''depth'', ''type''} \<subseteq> keys d"
  obtain v1 where v1: "getitem d ''intensity'' = Return v1"
    using all getitem_present [of "''intensity''" d] by auto
  obtain v2 where v2: "getitem d ''naturalness'' = Return v2"
    using all getitem_present [of "''naturalness''" d] by auto
  obtain v3 where v3: "getitem d ''pain'' = Return v3"
    using all getitem_present [of "''pain''" d] by auto
  obtain v4 where v4: "getitem d ''depth'' = Return v4"
    using all getitem_present [of "''depth''" d] by auto
  obtain v5 where v5: "getitem d ''type'' = Return v5"
    using all getitem_present [of "''type''" d] by auto
  show "\<exists>q. Quality_fromDict self d = (Return (), q) \<and>
           getitem d ''intensity'' = Return (intensity q) \<and>
           getitem d ''naturalness'' = Return (naturalness q) \<and>
           getitem d ''pain'' = Return (pain q) \<and>
           getitem d ''depth'' = Return (depth q) \<and>
           getitem d ''type'' = Return (type q)"
    by (simp add: Quality_fromDict_def v1 v2 v3 v4 v5)
next
  assume "\<not> {''intensity'', ''naturalness'', ''pain'', ''depth'', ''type''} \<subseteq> keys d"
  then consider
      (a) "''intensity'' \<notin> keys d"
    | (b) "''intensity'' \<in> keys d" "''naturalness'' \<notin> keys d"
    | (c) "''intensity'' \<in> keys d" "''naturalness'' \<in> keys d" "''pain'' \<notin> keys d"
    | (d) "''intensity'' \<in> keys d" "''naturalness'' \<in> keys d" "''pain'' \<in> keys d"
          "''depth'' \<notin> keys d"
    | (e) "''intensity'' \<in> keys d" "''naturalness'' \<in> keys d" "''pain'' \<in> keys d"
          "''depth'' \<in> keys d" "''type'' \<notin> keys d"
    by auto
  then show "\<exists>k \<in> {''intensity'', ''naturalness'', ''pain'', ''depth'', ''type''}.
          k \<notin> keys d \<and> fst (Quality_fromDict self d) = Raise (KeyError k)"
  proof cases
    case a
    then show ?thesis by (simp add: Quality_fromDict_def getitem_absent)
  next
    case b
    then show ?thesis
      using getitem_present [of "''intensity''" d]
      by (auto simp: Quality_fromDict_def getitem_absent)
  next
    case c
    then show ?thesis
      using getitem_present [of "''intensity''" d] getitem_present [of "''naturalness''" d]
      by (auto simp: Quality_fromDict_def getitem_absent)
  next
    case d
    then show ?thesis
      using getitem_present [of "''intensity''" d] getitem_present [of "''naturalness''" d]
        getitem_present [of "''pain''" d]
      by (auto simp: Quality_fromDict_def getitem_absent)
  next
    case e
    then show ?thesis
      using getitem_present [of "''intensity''" d] getitem_present [of "''naturalness''" d]
        getitem_present [of "''pain''" d] getitem_present [of "''depth''" d]
      by (auto simp: Quality_fromDict_def getitem_absent)
  qed
qed

theorem Quality_fromDict_succeeds_iff_keys_witness:
  "{''intensity'', ''naturalness'', ''pain'', ''depth'', ''type''}
      \<subseteq> keys (Quality_toDict example_quality) \<and>
   Quality_fromDict \<lparr>intensity = PNone, naturalness = PNone, pain = PNone, depth = PNone,
       type = PNone\<rparr> (Quality_toDict example_quality) = (Return (), example_quality) \<and>
   \<not> {''intensity'', ''naturalness'', ''pain'', ''depth'', ''type''}
      \<subseteq> keys [(''intensity'', PInt 1), (''pain'', PInt 0)] \<and>
   fst (Quality_fromDict example_quality [(''intensity'', PInt 1), (''pain'', PInt 0)]) =
     Raise (KeyError ''naturalness'')"
  using Quality_fromDict_succeeds_iff_keys [of "Quality_toDict example_quality"
      "\<lparr>intensity = PNone, naturalness = PNone, pain = PNone, depth = PNone, type = PNone\<rparr>"]
    Quality_fromDict_succeeds_iff_keys [of "[(''intensity'', PInt 1), (''pain'', PInt 0)]"
      example_quality]
  by (simp add: keys_def Quality_toDict_def example_quality_def Quality_fromDict_def
      getitem_def)

section \<open>Saving a survey\<close>



lemma Survey_saveSurvey_fst_False:
  "fst (Survey_saveSurvey s d w) = Return False \<longleftrightarrow> projectedFields s = []"
  by (simp add: Survey_saveSurvey_def open_write_def Let_def)




text \<open>
  C10 (frame of \<^verbatim>\<open>Survey.saveSurvey\<close>). Whether the call returns \<^verbatim>\<open>True\<close>, returns
  \<^verbatim>\<open>False\<close> or raises, the survey object after the call is the survey before it:
  participant, config, date, startTime, endTime and projectedFields are all unchanged.
\<close>

theorem Survey_saveSurvey_frame:
  "fst (snd (Survey_saveSurvey s d w)) = s"
  by (simp add: Survey_saveSurvey_def open_write_def Let_def)

section \<open>The manager's life cycle\<close>

lemma SurveyManager_saveSurvey_on_active:
  "survey m = Some s \<Longrightarrow>
   SurveyManager_saveSurvey now m w =
     (case fst (Survey_saveSurvey (endTimeNow now s) (data_path m) w) of
        Raise e \<Rightarrow>
          (Raise e, m\<lparr>survey := Some (endTimeNow now s)\<rparr>,
           snd (snd (Survey_saveSurvey (endTimeNow now s) (data_path m) w)))
      | Return ok \<Rightarrow>
          if ok then
            (Return True, m\<lparr>survey := None\<rparr>,
             snd (snd (Survey_saveSurvey (endTimeNow now s) (data_path m) w)))
          else
            (Return False, m\<lparr>survey := Some (endTimeNow now s)\<rparr>,
             snd (snd (Survey_saveSurvey (endTimeNow now s) (data_path m) w))))"
  by (simp add: SurveyManager_saveSurvey_def Survey_saveSurvey_def open_write_def Let_def)

text \<open>
  C4 (\<^verbatim>\<open>SurveyManager.saveSurvey\<close> with an active survey). The world after the call is
  the world after saving the survey with its end time already set to the clock
  reading, so the stamp comes first and the saved record carries it. If that save
  returns \<^verbatim>\<open>True\<close>, the manager returns \<^verbatim>\<open>True\<close> and holds no survey any more; if it
  returns \<^verbatim>\<open>False\<close>, which it does only with no projected field, the manager returns
  \<^verbatim>\<open>False\<close> and still holds the survey, with the new end time.
\<close>

theorem SurveyManager_saveSurvey_stamps_then_saves:
  "survey m = Some s \<Longrightarrow>
   snd (snd (SurveyManager_saveSurvey now m w)) =
     snd (snd (Survey_saveSurvey (s\<lparr>endTime := strftime_time now\<rparr>) (data_path m) w)) \<and>
   (fst (Survey_saveSurvey (s\<lparr>endTime := strftime_time now\<rparr>) (data_path m) w) =
      Return True \<longrightarrow>
      fst (SurveyManager_saveSurvey now m w) = Return True \<and>
      fst (snd (SurveyManager_saveSurvey now m w)) = m\<lparr>survey := None\<rparr>) \<and>
   (fst (Survey_saveSurvey (s\<lparr>endTime := strftime_time now\<rparr>) (data_path m) w) =
      Return False \<longrightarrow>
      projectedFields s = [] \<and>
      fst (SurveyManager_saveSurvey now m w) = Return False \<and>
      fst (snd (SurveyManager_saveSurvey now m w)) =
        m\<lparr>survey := Some (s\<lparr>endTime := strftime_time now\<rparr>)\<rparr>)"
proof -
  assume a: "survey m = Some s"
  have e: "endTimeNow now s = s\<lparr>endTime := strftime_time now\<rparr>"
    by (simp add: endTimeNow_def)
  have f: "fst (Survey_saveSurvey (s\<lparr>endTime := strftime_time now\<rparr>) (data_path m) w) =
      Return False \<Longrightarrow> projectedFields s = []"
    by (simp add: Survey_saveSurvey_fst_False)
  show ?thesis
    using f by (auto simp: SurveyManager_saveSurvey_on_active [OF a] e
        split: outcome.splits)
qed

theorem SurveyManager_saveSurvey_stamps_then_saves_witness:
  "survey (example_active example_survey) = Some example_survey \<and>
   SurveyManager_saveSurvey example_now (example_active example_survey) example_world =
     (Return True, example_idle,
      example_world
        \<lparr>files := [''/data/p1_2024-05-17_09-15-00.json'' \<mapsto>
           JsonDump (PDict (Survey_toDict (example_survey\<lparr>endTime := ''12-30-45''\<rparr>))) 4],
         stdout := [''Saving survey to p1_2024-05-17_09-15-00.json...'']\<rparr>) \<and>
   survey (example_active example_empty_survey) = Some example_empty_survey \<and>
   fst (SurveyManager_saveSurvey example_now (example_active example_empty_survey)
          example_world) = Return False \<and>
   fst (snd (SurveyManager_saveSurvey example_now (example_active example_empty_survey)
          example_world)) = example_active (example_empty_survey\<lparr>endTime := ''12-30-45''\<rparr>)"
  using SurveyManager_saveSurvey_stamps_then_saves [of "example_active example_survey"
      example_survey example_now example_world]
    SurveyManager_saveSurvey_stamps_then_saves [of "example_active example_empty_survey"
      example_empty_survey example_now example_world]
  by (simp add: example_active_def example_idle_def example_survey_def
      example_empty_survey_def example_world_def example_now_def
      Survey_saveSurvey_def print_def open_write_def os_path_join_def Let_def
      strftime_time_def pad2_def digit_char_def prod_eq_iff)

text \<open>
  C5 (one active survey). With a survey active, \<^verbatim>\<open>newSurvey\<close> returns \<^verbatim>\<open>False\<close> for
  every participant, prints its diagnostic, and leaves the manager, and so the
  active survey, as it was; no file changes.
\<close>

theorem SurveyManager_newSurvey_while_active:
  "survey m = Some s \<Longrightarrow>
   fst (SurveyManager_newSurvey now m p w) = PBool False \<and>
   fst (snd (SurveyManager_newSurvey now m p w)) = m \<and>
   survey (fst (snd (SurveyManager_newSurvey now m p w))) = Some s \<and>
   files (snd (snd (SurveyManager_newSurvey now m p w))) = files w \<and>
   stdout (snd (snd (SurveyManager_newSurvey now m p w))) =
     stdout w @ [''Cannot begin new survey; there is already an ongoing survey.'']"
  by (simp add: SurveyManager_newSurvey_def print_def)

theorem SurveyManager_newSurvey_while_active_witness:
  "survey (example_active example_survey) = Some example_survey \<and>
   SurveyManager_newSurvey example_now (example_active example_survey) ''p1'' example_world =
     (PBool False, example_active example_survey,
      example_world\<lparr>stdout :=
        [''Cannot begin new survey; there is already an ongoing survey.'']\<rparr>)"
  using SurveyManager_newSurvey_while_active [of "example_active example_survey"
      example_survey example_now "''p1''" example_world]
  by (simp add: example_active_def SurveyManager_newSurvey_def print_def example_world_def)

text \<open>
  C6 (unknown participant). With no survey active and a participant that is not a key
  of the configuration, \<^verbatim>\<open>newSurvey\<close> raises nothing, prints its diagnostic and leaves
  the manager idle, but the branch ends without a \<^verbatim>\<open>return\<close>: the value returned
  is \<^verbatim>\<open>None\<close>, not the \<^verbatim>\<open>False\<close> that the docstring gives for failure.
\<close>

theorem SurveyManager_newSurvey_unknown_participant:
  "survey m = None \<Longrightarrow> p \<notin> keys (config m) \<Longrightarrow>
   fst (SurveyManager_newSurvey now m p w) = PNone \<and>
   fst (SurveyManager_newSurvey now m p w) \<noteq> PBool False \<and>
   fst (snd (SurveyManager_newSurvey now m p w)) = m \<and>
   files (snd (snd (SurveyManager_newSurvey now m p w))) = files w \<and>
   stdout (snd (snd (SurveyManager_newSurvey now m p w))) =
     stdout w @ [''Cannot begin new survey; given participant is not in participant config.'']"
  by (simp add: SurveyManager_newSurvey_def print_def keys_def map_of_eq_None_iff [symmetric])

theorem SurveyManager_newSurvey_unknown_participant_witness:
  "survey example_idle = None \<and> ''nobody'' \<notin> keys (config example_idle) \<and>
   SurveyManager_newSurvey example_now example_idle ''nobody'' example_world =
     (PNone, example_idle,
      example_world\<lparr>stdout :=
        [''Cannot begin new survey; given participant is not in participant config.'']\<rparr>)"
  using SurveyManager_newSurvey_unknown_participant [of example_idle "''nobody''"
      example_now example_world]
  by (simp add: example_idle_def example_config_def keys_def SurveyManager_newSurvey_def
      print_def example_world_def)

text \<open>
  The claim C7 as the specification words it fails on a survey without projected
  fields: \<^verbatim>\<open>saveSurvey\<close> returns \<^verbatim>\<open>False\<close>, and the survey the manager holds
  afterwards has the end time 12-30-45 where it had the empty string before.
\<close>

theorem SurveyManager_saveSurvey_failure_moves_endTime:
  "fst (SurveyManager_saveSurvey example_now (example_active example_empty_survey)
          example_world) = Return False \<and>
   survey (example_active example_empty_survey) = Some example_empty_survey \<and>
   endTime example_empty_survey = [] \<and>
   survey (fst (snd (SurveyManager_saveSurvey example_now
       (example_active example_empty_survey) example_world))) =
     Some (example_empty_survey\<lparr>endTime := ''12-30-45''\<rparr>) \<and>
   survey (fst (snd (SurveyManager_saveSurvey example_now
       (example_active example_empty_survey) example_world))) \<noteq>
     survey (example_active example_empty_survey)"
  by (simp add: example_active_def example_idle_def
      example_empty_survey_def example_world_def example_now_def
      SurveyManager_saveSurvey_def endTimeNow_def
      Survey_saveSurvey_def print_def Let_def
      strftime_time_def pad2_def digit_char_def)

text \<open>
  C7 (failed operations), amended. A \<^verbatim>\<open>newSurvey\<close> that does not return \<^verbatim>\<open>True\<close>
  leaves the manager and the files as they were. A \<^verbatim>\<open>saveSurvey\<close> on an active
  survey that returns \<^verbatim>\<open>False\<close> writes no file and leaves the manager with the same
  survey except for \<open>endTime\<close>, which is set to the clock reading; every other
  field of the survey equals its value before the call.
\<close>

theorem SurveyManager_failure_keeps_all_but_endTime:
  "(fst (SurveyManager_newSurvey now m p w) \<noteq> PBool True \<longrightarrow>
      fst (snd (SurveyManager_newSurvey now m p w)) = m \<and>
      files (snd (snd (SurveyManager_newSurvey now m p w))) = files w) \<and>
   (survey m = Some s \<and> fst (SurveyManager_saveSurvey now m w) = Return False \<longrightarrow>
      fst (snd (SurveyManager_saveSurvey now m w)) =
        m\<lparr>survey := Some (s\<lparr>endTime := strftime_time now\<rparr>)\<rparr> \<and>
      files (snd (snd (SurveyManager_saveSurvey now m w))) = files w)"
  by (auto simp: SurveyManager_newSurvey_def print_def SurveyManager_saveSurvey_on_active
      Survey_saveSurvey_def open_write_def endTimeNow_def Let_def
      split: option.splits if_splits)

theorem SurveyManager_failure_keeps_all_but_endTime_witness:
  "fst (SurveyManager_newSurvey example_now (example_active example_survey) ''p1''
          example_world) \<noteq> PBool True \<and>
   fst (snd (SurveyManager_newSurvey example_now (example_active example_survey) ''p1''
          example_world)) = example_active example_survey \<and>
   survey (example_active example_empty_survey) = Some example_empty_survey \<and>
   fst (SurveyManager_saveSurvey example_now (example_active example_empty_survey)
          example_world) = Return False \<and>
   fst (snd (SurveyManager_saveSurvey example_now (example_active example_empty_survey)
          example_world)) =
     example_active (example_empty_survey\<lparr>endTime := strftime_time example_now\<rparr>)"
  using SurveyManager_failure_keeps_all_but_endTime [of example_now
      "example_active example_survey" "''p1''" example_world example_survey]
    SurveyManager_failure_keeps_all_but_endTime [of example_now
      "example_active example_empty_survey" "''p1''" example_world example_empty_survey]
  by (simp add: example_active_def example_idle_def example_empty_survey_def
      SurveyManager_newSurvey_def SurveyManager_saveSurvey_def Survey_saveSurvey_def
      endTimeNow_def print_def Let_def)

text \<open>
  C9 (\<^verbatim>\<open>saveSurvey\<close> while idle). With no survey active the call raises
  \<^verbatim>\<open>AttributeError\<close> from \<^verbatim>\<open>self.survey.endTimeNow()\<close>; it returns neither \<^verbatim>\<open>True\<close>
  nor \<^verbatim>\<open>False\<close>, and it changes neither the manager nor the world.
\<close>

theorem SurveyManager_saveSurvey_idle_raises:
  "survey m = None \<Longrightarrow>
   SurveyManager_saveSurvey now m w = (Raise AttributeError, m, w) \<and>
   (\<forall>b. fst (SurveyManager_saveSurvey now m w) \<noteq> Return b)"
  by (simp add: SurveyManager_saveSurvey_def)

theorem SurveyManager_saveSurvey_idle_raises_witness:
  "survey example_idle = None \<and>
   SurveyManager_saveSurvey example_now example_idle example_world =
     (Raise AttributeError, example_idle, example_world)"
  using SurveyManager_saveSurvey_idle_raises [of example_idle example_now example_world]
  by (simp add: example_idle_def)

end
